theory Spec2Isabelle
  imports Main "HOL-Library.Multiset"
begin

section \<open>JavaScript values\<close>

text \<open>
  The values that flow through \<^verbatim>\<open>src/app.js\<close>: configuration options, bookmark
  configurations and event payloads. An object is a finite map from property names to
  values; reading a property that is not there gives \<^verbatim>\<open>undefined\<close>. Numbers are
  the integers the source writes (10, 3, 10000).
\<close>

datatype jsval =
    JUndefined
  | JNull
  | JBool bool
  | JNum int
  | JStr string
  | JArr "jsval list"
  | JObj "string \<Rightarrow> jsval option"

type_synonym jsobject = "string \<Rightarrow> jsval option"

text \<open>ToBoolean, as \<^verbatim>\<open>a && b\<close> and \<^verbatim>\<open>c ? x : y\<close> apply it.\<close>

fun truthy :: "jsval \<Rightarrow> bool" where
  "truthy JUndefined = False"
| "truthy JNull = False"
| "truthy (JBool b) = b"
| "truthy (JNum n) = (n \<noteq> 0)"
| "truthy (JStr s) = (s \<noteq> [])"
| "truthy (JArr xs) = True"
| "truthy (JObj m) = True"

text \<open>\<^verbatim>\<open>object[key]\<close> on an object.\<close>

definition obj_get :: "jsobject \<Rightarrow> string \<Rightarrow> jsval" where
  "obj_get m k = (case m k of None \<Rightarrow> JUndefined | Some v \<Rightarrow> v)"

text \<open>Decimal digits of an index, for the property names of strings and arrays.\<close>

definition digit :: "nat \<Rightarrow> char" where
  "digit n = char_of (48 + n)"

function string_of_nat :: "nat \<Rightarrow> string" where
  "string_of_nat n =
     (if n < 10 then [digit n] else string_of_nat (n div 10) @ [digit (n mod 10)])"
  by pat_completeness auto
termination
  by (relation "measure id") auto

text \<open>
  The own enumerable properties of a value, which is what the spread
  \<^verbatim>\<open>{...value}\<close> copies: those of an object, the indices of a string or an array,
  none for \<^verbatim>\<open>undefined\<close>, \<^verbatim>\<open>null\<close>, booleans and numbers.
\<close>

fun own_props :: "jsval \<Rightarrow> jsobject" where
  "own_props (JObj m) = m"
| "own_props (JStr s) = map_of (map (\<lambda>i. (string_of_nat i, JStr [s ! i])) [0..<length s])"
| "own_props (JArr xs) = map_of (map (\<lambda>i. (string_of_nat i, xs ! i)) [0..<length xs])"
| "own_props JUndefined = Map.empty"
| "own_props JNull = Map.empty"
| "own_props (JBool b) = Map.empty"
| "own_props (JNum n) = Map.empty"

text \<open>
  Values that are thrown, rejected with, or carried as the \<^verbatim>\<open>error\<close> and
  \<^verbatim>\<open>reason\<close> of an error event: a string, or an Error object with its name and
  message. \<^verbatim>\<open>toString\<close> is \<^verbatim>\<open>Error.prototype.toString\<close> on the latter.
\<close>

datatype errval = ErrStr string | ErrObj string string

fun toString :: "errval \<Rightarrow> string" where
  "toString (ErrStr s) = s"
| "toString (ErrObj name msg) =
     (if name = [] then msg else if msg = [] then name else name @ '': '' @ msg)"

fun err_truthy :: "errval \<Rightarrow> bool" where
  "err_truthy (ErrStr s) = (s \<noteq> [])"
| "err_truthy (ErrObj name msg) = True"

text \<open>
  A promise can also be rejected with \<^verbatim>\<open>undefined\<close> or \<^verbatim>\<open>null\<close>
  (\<^verbatim>\<open>Promise.reject()\<close>, \<^verbatim>\<open>reject(null)\<close>). These have no
  \<^verbatim>\<open>toString\<close>: calling it throws a TypeError.
\<close>

datatype nullish = NUndefined | NNull

text \<open>The state of a promise when the code awaits it.\<close>

datatype 'a promise = Resolved 'a | Rejected errval | RejectedNullish nullish | Pending

section \<open>Events and effects\<close>

record error_payload =
  error :: errval
  reason :: "errval option"

record action_info =
  action :: string
  name :: string
  completed :: bool

text \<open>The events of \<^verbatim>\<open>rclone.emitter\<close> with their payloads.\<close>

datatype event =
    Ready
  | ErrorEv error_payload
  | LogEv string string
  | ConfigEv "(string \<times> string) option"
  | ActionEv action_info
  | InvalidConfigPass string

fun event_name :: "event \<Rightarrow> string" where
  "event_name Ready = ''ready''"
| "event_name (ErrorEv p) = ''error''"
| "event_name (LogEv l m) = ''log''"
| "event_name (ConfigEv i) = ''config''"
| "event_name (ActionEv i) = ''action''"
| "event_name (InvalidConfigPass m) = ''invalid-config-pass''"

text \<open>The listeners that \<^verbatim>\<open>app()\<close> registers, in the order of the source.\<close>

datatype listener =
    ErrorNotify
  | ConfigUpdateMenu
  | ActionUpdateMenu
  | ReadySetOptions
  | ReadyMenu
  | ReadyBookmarks
  | ErrorLog
  | LogLog
  | ConfigLog
  | ActionLog
  | InvalidConfigPassPrompt

text \<open>
  Calls into the collaborators, in the order they are made. A prompt carries the effects
  of its callback, which run when the user acknowledges it.
\<close>

datatype effect =
    SetUncaughtExceptionCaptureCallback
  | SetID string
  | SetName string
  | SingleInstanceLock string
  | PromptError string string "effect list"
  | ProcessExit nat
  | CreateTrayMenu
  | ConfigOnDidChange string
  | ConfigOnDidAnyChange
  | EmitterOn string listener
  | SetupDaemon
  | RunGC
  | SendNotification string
  | LoggerLog string string
  | LoggerWarn string string
  | ConsoleWarn string string
  | SetOptions jsobject
  | UpdateMenu
  | SetApplicationMenu
  | SetActivationPolicy string
  | GetBookmarks
  | Mount string jsobject
  | Pull string jsobject
  | LogInsert string string
  | LogInsertError error_payload
  | WinClose nat
  | StopRcloneDaemon

text \<open>
  How an async function ends: its promise is fulfilled, rejected with the value it
  awaited or threw, rejected with the TypeError of a \<^verbatim>\<open>toString\<close> call on
  \<^verbatim>\<open>undefined\<close> or \<^verbatim>\<open>null\<close>, or never settles (it awaits a promise that does
  not settle, or the process has exited).
\<close>

datatype completion =
    Fulfilled
  | RejectedWith errval
  | RejectedWithNullish nullish
  | RejectedWithTypeError
  | NeverSettled

text \<open>
  What the collaborators answer. \<^verbatim>\<open>rclone.RCLONETRAY_CONFIG.CUSTOM_KEYS\<close> and
  \<^verbatim>\<open>packageJson\<close> are constants of modules outside these two files and are taken
  as parameters.
\<close>

record custom_keys =
  autoMount :: string
  pullOnStart :: string
  localDirectory :: string

record env =
  platform :: string
  build_appId :: string
  build_productName :: string
  productName :: string
  app_getID :: string
  lock_result :: "unit promise"
  rclone_options :: jsval
  setOptions_result :: "unit promise"
  getBookmarks_result :: "(string \<times> jsobject) list promise"
  CUSTOM_KEYS :: custom_keys

section \<open>app.js\<close>

subsection \<open>The listeners\<close>

text \<open>Lines 53-57: the notification of an error event.\<close>

definition error_message :: "error_payload \<Rightarrow> string" where
  "error_message e =
     toString (error e) @
       (case reason e of
          None \<Rightarrow> []
        | Some r \<Rightarrow> if err_truthy r then [CHR 0x0A] @ toString r else [])"

definition on_error_notify :: "error_payload \<Rightarrow> effect list" where
  "on_error_notify e =
     [SendNotification (error_message e), LoggerLog ''!!!RCLONE_ERROR!!!'' (error_message e)]"

text \<open>Lines 62-80: the options object literal, the defaults first, then the spread.\<close>

definition default_vfs :: jsobject where
  "default_vfs =
     [''Timeout'' \<mapsto> JNum 10,
      ''DirCacheTime'' \<mapsto> JNum 3,
      ''ReadOnly'' \<mapsto> JBool True,
      ''CachePollInterval'' \<mapsto> JNum 10000,
      ''PollInterval'' \<mapsto> JNum 10000]"

definition default_mount :: jsobject where
  "default_mount =
     [''NoAppleDouble'' \<mapsto> JBool True,
      ''NoAppleXattr'' \<mapsto> JBool True,
      ''AllowNonEmpty'' \<mapsto> JBool False,
      ''Daemon'' \<mapsto> JBool False,
      ''DebugFUSE'' \<mapsto> JBool False]"

definition default_options :: jsobject where
  "default_options = [''vfs'' \<mapsto> JObj default_vfs, ''mount'' \<mapsto> JObj default_mount]"

definition ready_options :: "jsval \<Rightarrow> jsobject" where
  "ready_options overrides = default_options ++ own_props overrides"

definition on_ready_setOptions :: "env \<Rightarrow> effect list \<times> completion" where
  "on_ready_setOptions E =
     ([SetOptions (ready_options (rclone_options E))],
      (case setOptions_result E of
         Resolved u \<Rightarrow> Fulfilled
       | Rejected e \<Rightarrow> RejectedWith e
       | RejectedNullish n \<Rightarrow> RejectedWithNullish n
       | Pending \<Rightarrow> NeverSettled))"

text \<open>Lines 82-88.\<close>

definition on_ready_menu :: "env \<Rightarrow> effect list" where
  "on_ready_menu E =
     UpdateMenu #
       (if platform E = ''darwin''
        then [SetApplicationMenu, SetActivationPolicy ''accessory'']
        else [])"

text \<open>
  Lines 93-104: the loop over \<^verbatim>\<open>Object.entries(bookmarks)\<close>. \<^verbatim>\<open>rclone.mount\<close>
  and \<^verbatim>\<open>rclone.pull\<close> are asynchronous operations of the supervisor that are called
  and not awaited: the call is made and its promise dropped.
\<close>

fun reconcile :: "custom_keys \<Rightarrow> (string \<times> jsobject) list \<Rightarrow> effect list" where
  "reconcile K [] = []"
| "reconcile K ((bookmarkName, bookmarkConfig) # rest) =
     (if obj_get bookmarkConfig (autoMount K) = JStr ''true''
      then [Mount bookmarkName bookmarkConfig] else []) @
     (if obj_get bookmarkConfig (pullOnStart K) = JStr ''true'' \<and>
         truthy (obj_get bookmarkConfig (localDirectory K))
      then [Pull bookmarkName bookmarkConfig] else []) @
     reconcile K rest"

text \<open>
  Lines 90-108. The catch block evaluates \<^verbatim>\<open>error.toString()\<close> as an argument of
  \<^verbatim>\<open>logger.warn\<close>: when the rejection is \<^verbatim>\<open>undefined\<close> or \<^verbatim>\<open>null\<close>
  that call throws inside the catch, nothing is logged, and the listener's promise rejects.
\<close>

definition on_ready_bookmarks :: "env \<Rightarrow> effect list \<times> completion" where
  "on_ready_bookmarks E =
     (case getBookmarks_result E of
        Resolved bookmarks \<Rightarrow> (GetBookmarks # reconcile (CUSTOM_KEYS E) bookmarks, Fulfilled)
      | Rejected e \<Rightarrow>
          ([GetBookmarks, LoggerWarn ''Cannot fetch bookmarks upon start.'' (toString e)],
           Fulfilled)
      | RejectedNullish n \<Rightarrow> ([GetBookmarks], RejectedWithTypeError)
      | Pending \<Rightarrow> ([GetBookmarks], NeverSettled))"

text \<open>Lines 118-132.\<close>

definition on_config_log :: "(string \<times> string) option \<Rightarrow> effect list" where
  "on_config_log info =
     (case info of
        None \<Rightarrow> [LogInsert ''info'' ''External config change'']
      | Some (a, n) \<Rightarrow> [LogInsert ''info'' (''Config: '' @ a @ '' on: '' @ n)])"

text \<open>Lines 134-146.\<close>

definition on_action_log :: "action_info \<Rightarrow> effect list" where
  "on_action_log info =
     (if completed info
      then [LogInsert ''info'' (''Stop: '' @ action info @ '' on: '' @ name info)]
      else [LogInsert ''info'' (''Start: '' @ action info @ '' on: '' @ name info)])"

text \<open>Lines 148-161.\<close>

definition on_invalid_config_pass :: "string \<Rightarrow> effect list" where
  "on_invalid_config_pass message =
     [LogInsert ''error'' ''Invalid Rclone password'',
      PromptError ''Invalid Rclone password'' message [ProcessExit 1]]"

text \<open>What a listener does with an event of the name it is registered for.\<close>

fun run_listener :: "env \<Rightarrow> listener \<Rightarrow> event \<Rightarrow> effect list" where
  "run_listener E ErrorNotify (ErrorEv p) = on_error_notify p"
| "run_listener E ConfigUpdateMenu (ConfigEv i) = [UpdateMenu]"
| "run_listener E ActionUpdateMenu (ActionEv i) = [UpdateMenu]"
| "run_listener E ReadySetOptions Ready = fst (on_ready_setOptions E)"
| "run_listener E ReadyMenu Ready = on_ready_menu E"
| "run_listener E ReadyBookmarks Ready = fst (on_ready_bookmarks E)"
| "run_listener E ErrorLog (ErrorEv p) = [LogInsertError p]"
| "run_listener E LogLog (LogEv l m) = [LogInsert l m]"
| "run_listener E ConfigLog (ConfigEv i) = on_config_log i"
| "run_listener E ActionLog (ActionEv i) = on_action_log i"
| "run_listener E InvalidConfigPassPrompt (InvalidConfigPass m) = on_invalid_config_pass m"
| "run_listener E l ev = []"

subsection \<open>app()\<close>

text \<open>Lines 47-165, run once the lock is held.\<close>

definition wiring :: "effect list" where
  "wiring =
     [CreateTrayMenu,
      ConfigOnDidChange ''rclone_options'',
      ConfigOnDidAnyChange,
      EmitterOn ''error'' ErrorNotify,
      EmitterOn ''config'' ConfigUpdateMenu,
      EmitterOn ''action'' ActionUpdateMenu,
      EmitterOn ''ready'' ReadySetOptions,
      EmitterOn ''ready'' ReadyMenu,
      EmitterOn ''ready'' ReadyBookmarks,
      EmitterOn ''error'' ErrorLog,
      EmitterOn ''log'' LogLog,
      EmitterOn ''config'' ConfigLog,
      EmitterOn ''action'' ActionLog,
      EmitterOn ''invalid-config-pass'' InvalidConfigPassPrompt,
      SetupDaemon,
      RunGC]"

text \<open>Lines 19-31, up to the await of the lock.\<close>

definition startup :: "env \<Rightarrow> effect list" where
  "startup E =
     SetUncaughtExceptionCaptureCallback #
       (if platform E = ''win32'' \<or> platform E = ''linux'' then [SetID (build_appId E)] else []) @
       [SetName (build_productName E), SingleInstanceLock (app_getID E)]"

definition already_running_message :: "env \<Rightarrow> string" where
  "already_running_message E =
     ''There is already running instance of '' @ productName E @ '', cannot start twice.''"

definition app :: "env \<Rightarrow> effect list \<times> completion" where
  "app E =
     (case lock_result E of
        Resolved u \<Rightarrow> (startup E @ wiring, Fulfilled)
      | Rejected e \<Rightarrow>
          if toString e = ''ALREADY_RUNNING''
          then (startup E @
                  [PromptError (productName E) (already_running_message E) [ProcessExit 1]],
                Fulfilled)
          else (startup E, RejectedWith e)
      | RejectedNullish n \<Rightarrow> (startup E, RejectedWithTypeError)
      | Pending \<Rightarrow> (startup E, NeverSettled))"

subsection \<open>Emitting an event\<close>

text \<open>The listeners registered for a name, in registration order.\<close>

fun listeners :: "effect list \<Rightarrow> string \<Rightarrow> listener list" where
  "listeners [] n = []"
| "listeners (EmitterOn m l # es) n = (if m = n then l # listeners es n else listeners es n)"
| "listeners (e # es) n = listeners es n"

text \<open>
  \<^verbatim>\<open>emitter.emit\<close> calls every listener of the event's name; the result keeps one
  trace per listener, since the async listeners interleave after their first await.
\<close>

definition emit :: "env \<Rightarrow> event \<Rightarrow> effect list list" where
  "emit E ev = map (\<lambda>l. run_listener E l ev) (listeners (fst (app E)) (event_name ev))"

text \<open>Reading a trace.\<close>

fun on_acknowledge :: "effect \<Rightarrow> effect list" where
  "on_acknowledge (PromptError title message callback) = callback"
| "on_acknowledge e = []"

fun is_prompt :: "effect \<Rightarrow> bool" where
  "is_prompt (PromptError title message callback) = True"
| "is_prompt e = False"

fun log_entries :: "effect list \<Rightarrow> (string \<times> string) list" where
  "log_entries [] = []"
| "log_entries (LogInsert l m # es) = (l, m) # log_entries es"
| "log_entries (e # es) = log_entries es"

fun mounts :: "effect list \<Rightarrow> (string \<times> jsobject) list" where
  "mounts [] = []"
| "mounts (Mount n c # es) = (n, c) # mounts es"
| "mounts (e # es) = mounts es"

fun pulls :: "effect list \<Rightarrow> (string \<times> jsobject) list" where
  "pulls [] = []"
| "pulls (Pull n c # es) = (n, c) # pulls es"
| "pulls (e # es) = pulls es"

fun exit_codes :: "effect list \<Rightarrow> nat list" where
  "exit_codes [] = []"
| "exit_codes (ProcessExit c # es) = c # exit_codes es"
| "exit_codes (e # es) = exit_codes es"

fun notifications :: "effect list \<Rightarrow> string list" where
  "notifications [] = []"
| "notifications (SendNotification m # es) = m # notifications es"
| "notifications (e # es) = notifications es"

fun setOptions_calls :: "effect list \<Rightarrow> jsobject list" where
  "setOptions_calls [] = []"
| "setOptions_calls (SetOptions m # es) = m # setOptions_calls es"
| "setOptions_calls (e # es) = setOptions_calls es"

section \<open>app-quit.js\<close>

text \<open>
  \<^verbatim>\<open>forEach((win) => win.close())\<close>: the callback is applied to each open window in
  turn; a window is given by what its \<^verbatim>\<open>close()\<close> does, return or throw. An
  exception of the callback leaves the iteration, as it leaves any JavaScript loop.
\<close>

fun forEach_close :: "nat \<Rightarrow> errval option list \<Rightarrow> effect list \<times> errval option" where
  "forEach_close i [] = ([], None)"
| "forEach_close i (None # wins) =
     (case forEach_close (Suc i) wins of (t, r) \<Rightarrow> (WinClose i # t, r))"
| "forEach_close i (Some e # wins) = ([WinClose i], Some e)"

text \<open>
  Lines 4-13. \<^verbatim>\<open>process.exit\<close> does not return, so the exit after the try block is
  reached only when the try block completes. The catch block evaluates
  \<^verbatim>\<open>error.toString()\<close> first, as an argument of \<^verbatim>\<open>console.warn\<close>: when
  stopRcloneDaemon rejects with \<^verbatim>\<open>undefined\<close> or \<^verbatim>\<open>null\<close> that call throws
  inside the catch, so neither \<^verbatim>\<open>console.warn\<close> nor \<^verbatim>\<open>process.exit\<close> is
  called and the promise of appQuit rejects.
\<close>

definition appQuit_run ::
  "errval option list \<Rightarrow> unit promise \<Rightarrow> effect list \<times> completion" where
  "appQuit_run wins stop =
     (case forEach_close 0 wins of
        (t, Some e) \<Rightarrow>
          (t @ [ConsoleWarn ''Exit with errors.'' (toString e), ProcessExit 1], NeverSettled)
      | (t, None) \<Rightarrow>
          (case stop of
             Resolved u \<Rightarrow> (t @ [StopRcloneDaemon, ProcessExit 0], NeverSettled)
           | Rejected e \<Rightarrow>
               (t @ [StopRcloneDaemon, ConsoleWarn ''Exit with errors.'' (toString e),
                     ProcessExit 1],
                NeverSettled)
           | RejectedNullish n \<Rightarrow> (t @ [StopRcloneDaemon], RejectedWithTypeError)
           | Pending \<Rightarrow> (t @ [StopRcloneDaemon], NeverSettled)))"

text \<open>The calls that appQuit makes.\<close>

definition appQuit :: "errval option list \<Rightarrow> unit promise \<Rightarrow> effect list" where
  "appQuit wins stop = fst (appQuit_run wins stop)"

section \<open>Example inputs\<close>

text \<open>
  The scenario of three bookmarks: A is mounted, B is pulled into \<^verbatim>\<open>/x\<close>, C has no
  custom key.
\<close>

definition example_keys :: custom_keys where
  "example_keys =
     \<lparr>autoMount = ''rclonetray_automount'',
      pullOnStart = ''rclonetray_pullonstart'',
      localDirectory = ''rclonetray_local_directory''\<rparr>"

definition example_bookmarks :: "(string \<times> jsobject) list" where
  "example_bookmarks =
     [(''A'', [''rclonetray_automount'' \<mapsto> JStr ''true'']),
      (''B'', [''rclonetray_pullonstart'' \<mapsto> JStr ''true'',
               ''rclonetray_local_directory'' \<mapsto> JStr ''/x'']),
      (''C'', Map.empty)]"

definition example_env :: env where
  "example_env =
     \<lparr>platform = ''linux'',
      build_appId = ''com.rclonetray'',
      build_productName = ''RcloneTray'',
      productName = ''RcloneTray'',
      app_getID = ''com.rclonetray'',
      lock_result = Resolved (),
      rclone_options = JUndefined,
      setOptions_result = Resolved (),
      getBookmarks_result = Resolved example_bookmarks,
      CUSTOM_KEYS = example_keys\<rparr>"

text \<open>User options that set one key of the \<^verbatim>\<open>vfs\<close> section.\<close>

definition example_overrides :: jsval where
  "example_overrides = JObj [''vfs'' \<mapsto> JObj [''ReadOnly'' \<mapsto> JBool False]]"

section \<open>Properties\<close>

subsection \<open>Helper facts about traces\<close>

lemma exit_codes_append: "exit_codes (xs @ ys) = exit_codes xs @ exit_codes ys"
  by (induction xs rule: exit_codes.induct) simp_all

lemma listeners_append: "listeners (xs @ ys) n = listeners xs n @ listeners ys n"
  by (induction xs n rule: listeners.induct) simp_all

lemma listeners_startup: "listeners (startup E) n = []"
  by (simp add: startup_def)

lemma startup_quiet:
  "\<forall>x \<in> set (startup E). \<not> is_prompt x \<and> x \<noteq> SetupDaemon \<and> on_acknowledge x = []"
  by (simp add: startup_def)

lemma ack_startup: "concat (map on_acknowledge (startup E)) = []"
  by (simp add: startup_def)

lemma forEach_close_trace:
  "StopRcloneDaemon \<notin> set (fst (forEach_close i wins)) \<and>
   exit_codes (fst (forEach_close i wins)) = []"
  by (induction i wins rule: forEach_close.induct) (auto split: prod.splits)

lemma forEach_close_none:
  "(snd (forEach_close i wins) = None) = (\<forall>w \<in> set wins. w = None)"
  by (induction i wins rule: forEach_close.induct) (auto split: prod.splits)

subsection \<open>Shutdown\<close>

lemma forEach_close_replicate:
  "forEach_close i (replicate k None) = (map WinClose [i..<i + k], None)"
proof (induction k arbitrary: i)
  case 0
  show ?case by simp
next
  case (Suc k)
  have "[i..<i + Suc k] = i # [Suc i..<Suc i + k]"
    by (simp add: upt_conv_Cons)
  with Suc[of "Suc i"] show ?case
    by simp
qed

text \<open>
  Where every rejection is a string or an Error object, the shutdown sequence exits with
  code 0 exactly when no window's close throws and stopRcloneDaemon resolves, and a close
  that throws or a stopRcloneDaemon that rejects with such a value gives a warning and
  exit code 1.
\<close>

lemma appQuit_exit_code:
  "(exit_codes (appQuit wins stop) = [0] \<longleftrightarrow>
      (\<forall>w \<in> set wins. w = None) \<and> stop = Resolved ()) \<and>
   ((\<exists>e. Some e \<in> set wins) \<or> (\<exists>e. stop = Rejected e) \<longrightarrow>
      (\<exists>m. ConsoleWarn ''Exit with errors.'' m \<in> set (appQuit wins stop)) \<and>
      exit_codes (appQuit wins stop) = [1])"
proof -
  obtain t r where tr: "forEach_close 0 wins = (t, r)"
    by (cases "forEach_close 0 wins")
  from forEach_close_trace[of 0 wins] tr have t: "exit_codes t = []"
    by auto
  have n: "(r = None) = (\<forall>w \<in> set wins. w = None)"
    using forEach_close_none[of 0 wins] tr by simp
  show ?thesis
  proof (cases r)
    case None
    then have "\<forall>w \<in> set wins. w = None"
      using n by simp
    then have no: "\<not> (\<exists>e. Some e \<in> set wins)"
      by auto
    show ?thesis
      using tr None t n no
      by (cases stop) (auto simp: appQuit_def appQuit_run_def exit_codes_append)
  next
    case (Some e)
    then have "\<not> (\<forall>w \<in> set wins. w = None)"
      using n by simp
    then show ?thesis
      using tr Some t by (auto simp: appQuit_def appQuit_run_def exit_codes_append)
  qed
qed

text \<open>
  C6 does not hold of the code when stopRcloneDaemon rejects with undefined or null:
  every window is closed and stopRcloneDaemon is called, then the catch block throws a
  TypeError at error.toString(), so no warning is written, process.exit is never
  called, and the promise of appQuit rejects.
\<close>

theorem appQuit_stop_rejects_nullish:
  "appQuit_run (replicate k None) (RejectedNullish n) =
     (map WinClose [0..<k] @ [StopRcloneDaemon], RejectedWithTypeError) \<and>
   exit_codes (appQuit (replicate k None) (RejectedNullish n)) = [] \<and>
   (\<forall>a b. ConsoleWarn a b \<notin> set (appQuit (replicate k None) (RejectedNullish n)))"
proof -
  have r: "appQuit_run (replicate k None) (RejectedNullish n) =
     (map WinClose [0..<k] @ [StopRcloneDaemon], RejectedWithTypeError)"
    using forEach_close_replicate[of 0 k] by (simp add: appQuit_run_def)
  have e: "exit_codes (map WinClose [0..<k]) = []" for k
    by (induction k) (simp_all add: exit_codes_append)
  show ?thesis
    using r e[of k] by (auto simp: appQuit_def exit_codes_append)
qed

theorem appQuit_stop_rejects_nullish_witness:
  "appQuit_run [None, None] (RejectedNullish NUndefined) =
     ([WinClose 0, WinClose 1, StopRcloneDaemon], RejectedWithTypeError) \<and>
   exit_codes (appQuit [None, None] (RejectedNullish NUndefined)) = []"
  using appQuit_stop_rejects_nullish[of "Suc (Suc 0)" NUndefined]
  by simp



subsection \<open>The single-instance lock\<close>

text \<open>
  C5: when singleInstanceLock fails with ALREADY_RUNNING, setupDaemon is not called, the
  error prompt with the already-running message is shown, and acknowledging it exits the
  process with code 1.
\<close>

theorem app_already_running:
  assumes "lock_result E = Rejected e" and "toString e = ''ALREADY_RUNNING''"
  shows "SetupDaemon \<notin> set (fst (app E)) \<and>
         PromptError (productName E) (already_running_message E) [ProcessExit 1]
           \<in> set (fst (app E)) \<and>
         exit_codes (concat (map on_acknowledge (fst (app E)))) = [1]"
  using assms startup_quiet[of E]
  by (auto simp: app_def exit_codes_append ack_startup)

theorem app_already_running_witness:
  "lock_result (example_env\<lparr>lock_result := Rejected (ErrStr ''ALREADY_RUNNING'')\<rparr>)
     = Rejected (ErrStr ''ALREADY_RUNNING'') \<and>
   toString (ErrStr ''ALREADY_RUNNING'') = ''ALREADY_RUNNING'' \<and>
   SetupDaemon
     \<notin> set (fst (app (example_env\<lparr>lock_result := Rejected (ErrStr ''ALREADY_RUNNING'')\<rparr>))) \<and>
   exit_codes (concat (map on_acknowledge
     (fst (app (example_env\<lparr>lock_result := Rejected (ErrStr ''ALREADY_RUNNING'')\<rparr>))))) = [1]"
  using app_already_running[of
      "example_env\<lparr>lock_result := Rejected (ErrStr ''ALREADY_RUNNING'')\<rparr>"
      "ErrStr ''ALREADY_RUNNING''"]
  by simp



subsection \<open>Helper facts about emitted events\<close>

lemma listeners_wiring:
  "listeners wiring ''ready'' = [ReadySetOptions, ReadyMenu, ReadyBookmarks]"
  "listeners wiring ''error'' = [ErrorNotify, ErrorLog]"
  "listeners wiring ''invalid-config-pass'' = [InvalidConfigPassPrompt]"
  by (simp_all add: wiring_def)

lemma listeners_app:
  "lock_result E = Resolved u \<Longrightarrow> listeners (fst (app E)) n = listeners wiring n"
  by (simp add: app_def listeners_append listeners_startup)

lemma emit_ready:
  "lock_result E = Resolved u \<Longrightarrow>
   emit E Ready =
     [fst (on_ready_setOptions E), on_ready_menu E, fst (on_ready_bookmarks E)]"
  by (simp add: emit_def listeners_app listeners_wiring)

lemma emit_error:
  "lock_result E = Resolved u \<Longrightarrow>
   emit E (ErrorEv p) = [on_error_notify p, [LogInsertError p]]"
  by (simp add: emit_def listeners_app listeners_wiring)

lemma emit_invalid_config_pass:
  "lock_result E = Resolved u \<Longrightarrow>
   emit E (InvalidConfigPass m) = [on_invalid_config_pass m]"
  by (simp add: emit_def listeners_app listeners_wiring)

lemma mounts_append: "mounts (xs @ ys) = mounts xs @ mounts ys"
  by (induction xs rule: mounts.induct) simp_all

lemma pulls_append: "pulls (xs @ ys) = pulls xs @ pulls ys"
  by (induction xs rule: pulls.induct) simp_all

lemma mounts_reconcile:
  "mounts (reconcile K bs) = filter (\<lambda>(n, c). obj_get c (autoMount K) = JStr ''true'') bs"
  by (induction K bs rule: reconcile.induct) (simp_all add: mounts_append)

lemma pulls_reconcile:
  "pulls (reconcile K bs) =
     filter (\<lambda>(n, c). obj_get c (pullOnStart K) = JStr ''true'' \<and>
                       truthy (obj_get c (localDirectory K))) bs"
  by (induction K bs rule: reconcile.induct) (simp_all add: pulls_append)

lemma mounts_menu: "mounts (on_ready_menu E) = []" "pulls (on_ready_menu E) = []"
  by (simp_all add: on_ready_menu_def)

lemma mounts_setOptions: "mounts (fst (on_ready_setOptions E)) = []" "pulls (fst (on_ready_setOptions E)) = []"
  by (simp_all add: on_ready_setOptions_def)

lemma mounts_ready:
  assumes "lock_result E = Resolved u" and "getBookmarks_result E = Resolved bs"
  shows "mounts (concat (emit E Ready)) =
           filter (\<lambda>(n, c). obj_get c (autoMount (CUSTOM_KEYS E)) = JStr ''true'') bs"
  using assms
  by (simp add: emit_ready mounts_append mounts_menu mounts_setOptions on_ready_bookmarks_def
      mounts_reconcile)

lemma pulls_ready:
  assumes "lock_result E = Resolved u" and "getBookmarks_result E = Resolved bs"
  shows "pulls (concat (emit E Ready)) =
           filter (\<lambda>(n, c). obj_get c (pullOnStart (CUSTOM_KEYS E)) = JStr ''true'' \<and>
                       truthy (obj_get c (localDirectory (CUSTOM_KEYS E)))) bs"
  using assms
  by (simp add: emit_ready pulls_append mounts_menu mounts_setOptions on_ready_bookmarks_def
      pulls_reconcile)

lemma mounts_mem: "((n, c) \<in> set (mounts T)) = (Mount n c \<in> set T)"
  by (induction T rule: mounts.induct) auto

lemma pulls_mem: "((n, c) \<in> set (pulls T)) = (Pull n c \<in> set T)"
  by (induction T rule: pulls.induct) auto

lemma filter_fst_distinct:
  "distinct (map fst bs) \<Longrightarrow> b \<in> set bs \<Longrightarrow> filter (\<lambda>m. fst m = fst b) bs = [b]"
proof (induction bs)
  case Nil
  then show ?case by simp
next
  case (Cons x xs)
  from Cons.prems(1) have nx: "fst x \<notin> fst ` set xs" and d: "distinct (map fst xs)"
    by simp_all
  show ?case
  proof (cases "x = b")
    case True
    have "filter (\<lambda>m. fst m = fst b) xs = []"
      unfolding filter_empty_conv using nx True by (auto simp: image_iff)
    with True show ?thesis by simp
  next
    case False
    with Cons.prems(2) have b: "b \<in> set xs" by simp
    with nx have "fst x \<noteq> fst b" by (auto simp: image_iff)
    with Cons.IH[OF d b] show ?thesis by simp
  qed
qed

lemma count_list_append: "count_list (xs @ ys) x = count_list xs x + count_list ys x"
  by (induction xs) simp_all

lemma count_GetBookmarks_pre:
  "count_list (fst (on_ready_setOptions E)) GetBookmarks = 0"
  "count_list (on_ready_menu E) GetBookmarks = 0"
  by (simp_all add: on_ready_setOptions_def on_ready_menu_def)

lemma example_env_lock: "lock_result example_env = Resolved ()"
  by (simp add: example_env_def)

lemma example_env_lock_options:
  "lock_result (example_env\<lparr>rclone_options := v\<rparr>) = Resolved ()"
  by (simp add: example_env_def)

lemma setOptions_calls_append:
  "setOptions_calls (xs @ ys) = setOptions_calls xs @ setOptions_calls ys"
  by (induction xs rule: setOptions_calls.induct) simp_all

lemma setOptions_calls_reconcile: "setOptions_calls (reconcile K bs) = []"
  by (induction K bs rule: reconcile.induct) (simp_all add: setOptions_calls_append)

lemma setOptions_calls_others:
  "setOptions_calls (on_ready_menu E) = []"
  "setOptions_calls (fst (on_ready_bookmarks E)) = []"
  by (simp_all add: on_ready_menu_def on_ready_bookmarks_def setOptions_calls_reconcile
      split: promise.splits)

lemma setOptions_calls_ready:
  "lock_result E = Resolved u \<Longrightarrow>
   setOptions_calls (concat (emit E Ready)) = [ready_options (rclone_options E)]"
  by (simp add: emit_ready setOptions_calls_append setOptions_calls_others
      on_ready_setOptions_def)

subsection \<open>Reconciliation of bookmarks on ready\<close>

text \<open>
  C3: when getBookmarks resolves, the ready event calls mount on exactly the bookmarks
  whose autoMount key is the string "true", in the order of the entries; with unique
  names each such bookmark is mounted once and no other bookmark is mounted; and the
  bookmarks mounted are the same for every order of the entries.
\<close>

theorem ready_mounts:
  assumes "lock_result E = Resolved u" and "getBookmarks_result E = Resolved bs"
  shows "mounts (concat (emit E Ready)) =
           filter (\<lambda>(n, c). obj_get c (autoMount (CUSTOM_KEYS E)) = JStr ''true'') bs \<and>
         (distinct (map fst bs) \<longrightarrow>
            (\<forall>b \<in> set bs.
               length (filter (\<lambda>m. fst m = fst b) (mounts (concat (emit E Ready)))) =
                 (if obj_get (snd b) (autoMount (CUSTOM_KEYS E)) = JStr ''true'' then 1 else 0))) \<and>
         (\<forall>bs'. mset bs' = mset bs \<longrightarrow>
            mset (mounts (concat (emit (E\<lparr>getBookmarks_result := Resolved bs'\<rparr>) Ready))) =
            mset (mounts (concat (emit E Ready))))"
proof (intro conjI impI allI ballI)
  show m: "mounts (concat (emit E Ready)) =
           filter (\<lambda>(n, c). obj_get c (autoMount (CUSTOM_KEYS E)) = JStr ''true'') bs"
    using assms by (rule mounts_ready)
  {
    fix b assume d: "distinct (map fst bs)" and b: "b \<in> set bs"
    have "filter (\<lambda>m. fst m = fst b) (mounts (concat (emit E Ready))) =
          filter (\<lambda>(n, c). obj_get c (autoMount (CUSTOM_KEYS E)) = JStr ''true'')
            (filter (\<lambda>m. fst m = fst b) bs)"
      unfolding m by (simp add: conj_commute)
    also have "\<dots> = filter (\<lambda>(n, c). obj_get c (autoMount (CUSTOM_KEYS E)) = JStr ''true'') [b]"
      using filter_fst_distinct[OF d b] by simp
    finally show "length (filter (\<lambda>m. fst m = fst b) (mounts (concat (emit E Ready)))) =
                 (if obj_get (snd b) (autoMount (CUSTOM_KEYS E)) = JStr ''true'' then 1 else 0)"
      by (cases b) simp
  }
  {
    fix bs' assume p: "mset bs' = mset bs"
    have "mounts (concat (emit (E\<lparr>getBookmarks_result := Resolved bs'\<rparr>) Ready)) =
          filter (\<lambda>(n, c). obj_get c (autoMount (CUSTOM_KEYS E)) = JStr ''true'') bs'"
      using mounts_ready[of "E\<lparr>getBookmarks_result := Resolved bs'\<rparr>" u bs'] assms(1) by simp
    then show "mset (mounts (concat (emit (E\<lparr>getBookmarks_result := Resolved bs'\<rparr>) Ready))) =
            mset (mounts (concat (emit E Ready)))"
      using p m by simp
  }
qed

theorem ready_mounts_witness:
  "lock_result example_env = Resolved () \<and>
   getBookmarks_result example_env = Resolved example_bookmarks \<and>
   distinct (map fst example_bookmarks) \<and>
   map fst (mounts (concat (emit example_env Ready))) = [''A'']"
  using ready_mounts[of example_env "()" example_bookmarks]
  by (simp add: example_env_def example_bookmarks_def example_keys_def obj_get_def)

text \<open>
  C4: when getBookmarks resolves, the ready event calls pull on exactly the bookmarks
  whose pullOnStart key is the string "true" and whose localDirectory key is truthy (for
  a string: not empty). Mount and pull are decided separately for each bookmark, so a
  bookmark can trigger both, and one that meets neither condition triggers nothing.
\<close>

theorem ready_pulls:
  assumes "lock_result E = Resolved u" and "getBookmarks_result E = Resolved bs"
  shows "pulls (concat (emit E Ready)) =
           filter (\<lambda>(n, c). obj_get c (pullOnStart (CUSTOM_KEYS E)) = JStr ''true'' \<and>
                       truthy (obj_get c (localDirectory (CUSTOM_KEYS E)))) bs \<and>
         (\<forall>(n, c) \<in> set bs.
            (Mount n c \<in> set (concat (emit E Ready)) \<longleftrightarrow>
               obj_get c (autoMount (CUSTOM_KEYS E)) = JStr ''true'') \<and>
            (Pull n c \<in> set (concat (emit E Ready)) \<longleftrightarrow>
               obj_get c (pullOnStart (CUSTOM_KEYS E)) = JStr ''true'' \<and>
               truthy (obj_get c (localDirectory (CUSTOM_KEYS E)))))"
proof -
  have p: "pulls (concat (emit E Ready)) =
           filter (\<lambda>(n, c). obj_get c (pullOnStart (CUSTOM_KEYS E)) = JStr ''true'' \<and>
                       truthy (obj_get c (localDirectory (CUSTOM_KEYS E)))) bs"
    using assms by (rule pulls_ready)
  have m: "mounts (concat (emit E Ready)) =
           filter (\<lambda>(n, c). obj_get c (autoMount (CUSTOM_KEYS E)) = JStr ''true'') bs"
    using assms by (rule mounts_ready)
  show ?thesis
    unfolding mounts_mem[symmetric] pulls_mem[symmetric] p m by auto
qed

theorem ready_pulls_witness:
  "lock_result example_env = Resolved () \<and>
   getBookmarks_result example_env = Resolved example_bookmarks \<and>
   map fst (pulls (concat (emit example_env Ready))) = [''B'']"
  using ready_pulls[of example_env "()" example_bookmarks]
  by (simp add: example_env_def example_bookmarks_def example_keys_def obj_get_def)

text \<open>
  When getBookmarks rejects with a string or an Error object, the ready event calls
  neither mount nor pull, logs the warning, calls getBookmarks once, and the setOptions
  listener does what it does for any other answer of getBookmarks.
\<close>

lemma ready_fetch_fails:
  assumes "lock_result E = Resolved u" and "getBookmarks_result E = Rejected e"
  shows "mounts (concat (emit E Ready)) = [] \<and>
         pulls (concat (emit E Ready)) = [] \<and>
         LoggerWarn ''Cannot fetch bookmarks upon start.'' (toString e)
           \<in> set (concat (emit E Ready)) \<and>
         count_list (concat (emit E Ready)) GetBookmarks = 1 \<and>
         (\<forall>r. on_ready_setOptions (E\<lparr>getBookmarks_result := r\<rparr>) = on_ready_setOptions E)"
  using assms
  by (simp add: emit_ready mounts_append pulls_append mounts_menu mounts_setOptions
      on_ready_bookmarks_def count_GetBookmarks_pre on_ready_setOptions_def)

lemma no_warn_setOptions_menu:
  "LoggerWarn a b \<notin> set (fst (on_ready_setOptions E))"
  "LoggerWarn a b \<notin> set (on_ready_menu E)"
  by (simp_all add: on_ready_setOptions_def on_ready_menu_def)

text \<open>
  C7 does not hold of the code when getBookmarks rejects with undefined or null: the
  bookmarks listener calls getBookmarks once, then its catch block throws a TypeError at
  error.toString(), so no warning is logged by any listener of the ready event and the
  listener's promise rejects. Neither mount nor pull is called.
\<close>

theorem ready_fetch_rejects_nullish:
  assumes "lock_result E = Resolved u" and "getBookmarks_result E = RejectedNullish n"
  shows "on_ready_bookmarks E = ([GetBookmarks], RejectedWithTypeError) \<and>
         (\<forall>a b. LoggerWarn a b \<notin> set (concat (emit E Ready))) \<and>
         count_list (concat (emit E Ready)) GetBookmarks = 1 \<and>
         mounts (concat (emit E Ready)) = [] \<and>
         pulls (concat (emit E Ready)) = []"
  using assms
  by (simp add: emit_ready mounts_append pulls_append mounts_menu mounts_setOptions
      on_ready_bookmarks_def count_GetBookmarks_pre no_warn_setOptions_menu)

theorem ready_fetch_rejects_nullish_witness:
  "lock_result (example_env\<lparr>getBookmarks_result := RejectedNullish NUndefined\<rparr>)
     = Resolved () \<and>
   getBookmarks_result (example_env\<lparr>getBookmarks_result := RejectedNullish NUndefined\<rparr>)
     = RejectedNullish NUndefined \<and>
   on_ready_bookmarks (example_env\<lparr>getBookmarks_result := RejectedNullish NUndefined\<rparr>)
     = ([GetBookmarks], RejectedWithTypeError) \<and>
   LoggerWarn ''Cannot fetch bookmarks upon start.'' ''undefined''
     \<notin> set (concat (emit
       (example_env\<lparr>getBookmarks_result := RejectedNullish NUndefined\<rparr>) Ready))"
  using ready_fetch_rejects_nullish[of
      "example_env\<lparr>getBookmarks_result := RejectedNullish NUndefined\<rparr>" "()" NUndefined]
  by (simp add: example_env_def)

subsection \<open>The invalid-config-pass event\<close>

text \<open>
  C2, as stated, fails: the entry that is logged carries the message
  "Invalid Rclone password", and no entry with the message "Invalid credentials" exists.
\<close>

theorem invalid_config_pass_counterexample:
  "log_entries (concat (emit example_env (InvalidConfigPass ''bad password''))) =
     [(''error'', ''Invalid Rclone password'')] \<and>
   (''error'', ''Invalid credentials'')
     \<notin> set (log_entries (concat (emit example_env (InvalidConfigPass ''bad password''))))"
  by (simp add: emit_invalid_config_pass[OF example_env_lock] on_invalid_config_pass_def)

text \<open>
  C2, amended: an invalid-config-pass event appends exactly one log entry, of level
  "error" and message "Invalid Rclone password", and shows one error prompt; nothing
  exits before the prompt is acknowledged, acknowledging it exits with code 1, and
  stopRcloneDaemon is called neither before nor after.
\<close>

theorem invalid_config_pass:
  assumes "lock_result E = Resolved u"
  shows "log_entries (concat (emit E (InvalidConfigPass m))) =
           [(''error'', ''Invalid Rclone password'')] \<and>
         filter is_prompt (concat (emit E (InvalidConfigPass m))) =
           [PromptError ''Invalid Rclone password'' m [ProcessExit 1]] \<and>
         exit_codes (concat (emit E (InvalidConfigPass m))) = [] \<and>
         exit_codes (concat (map on_acknowledge (concat (emit E (InvalidConfigPass m))))) = [1] \<and>
         StopRcloneDaemon \<notin> set (concat (emit E (InvalidConfigPass m))) \<and>
         StopRcloneDaemon
           \<notin> set (concat (map on_acknowledge (concat (emit E (InvalidConfigPass m)))))"
  using assms
  by (simp add: emit_invalid_config_pass on_invalid_config_pass_def)

theorem invalid_config_pass_witness:
  "lock_result example_env = Resolved () \<and>
   log_entries (concat (emit example_env (InvalidConfigPass ''bad password''))) =
     [(''error'', ''Invalid Rclone password'')] \<and>
   exit_codes (concat (map on_acknowledge
     (concat (emit example_env (InvalidConfigPass ''bad password''))))) = [1]"
  using invalid_config_pass[of example_env "()" "''bad password''"]
  by (simp add: example_env_def)

subsection \<open>The notification of an error event\<close>

text \<open>
  C8, as stated, fails: a reason that is present but is the empty string is left out,
  newline included.
\<close>

theorem error_notification_counterexample:
  "notifications (concat (emit example_env
      (ErrorEv \<lparr>error = ErrStr ''mount failed'', reason = Some (ErrStr '''')\<rparr>))) =
     [''mount failed''] \<and>
   toString (ErrStr ''mount failed'') @ [CHR 0x0A] @ toString (ErrStr '''') \<noteq> ''mount failed''"
  by (simp add: emit_error[OF example_env_lock] on_error_notify_def error_message_def)

text \<open>
  C8, amended: an error event sends one notification; its message is the error's text,
  followed by a newline and the reason's text when the reason is present and truthy, and
  just the error's text when the reason is absent or falsy (the empty string).
\<close>

theorem error_notification:
  assumes "lock_result E = Resolved u"
  shows "notifications (concat (emit E (ErrorEv p))) =
           [case reason p of
              None \<Rightarrow> toString (error p)
            | Some r \<Rightarrow>
                if err_truthy r then toString (error p) @ [CHR 0x0A] @ toString r
                else toString (error p)]"
  using assms
  by (simp add: emit_error on_error_notify_def error_message_def split: option.splits)

theorem error_notification_witness:
  "lock_result example_env = Resolved () \<and>
   notifications (concat (emit example_env
      (ErrorEv \<lparr>error = ErrStr ''mount failed'', reason = Some (ErrObj ''Error'' ''busy'')\<rparr>))) =
     [''mount failed'' @ [CHR 0x0A] @ ''Error: busy''] \<and>
   notifications (concat (emit example_env
      (ErrorEv \<lparr>error = ErrStr ''mount failed'', reason = None\<rparr>))) = [''mount failed'']"
  using error_notification[of example_env "()"
      "\<lparr>error = ErrStr ''mount failed'', reason = Some (ErrObj ''Error'' ''busy'')\<rparr>"]
    error_notification[of example_env "()" "\<lparr>error = ErrStr ''mount failed'', reason = None\<rparr>"]
  by (simp add: example_env_def)

subsection \<open>The options applied on ready\<close>

text \<open>
  C1, as stated, fails: user options that set only ReadOnly in the vfs section replace
  the whole built-in vfs section, so that Timeout, absent from the overrides, is no
  longer 10 but undefined.
\<close>

theorem ready_options_counterexample:
  "map (\<lambda>m. obj_get (own_props (obj_get m ''vfs'')) ''Timeout'')
     (setOptions_calls (concat (emit (example_env\<lparr>rclone_options := example_overrides\<rparr>) Ready)))
     = [JUndefined] \<and>
   obj_get (own_props (obj_get (own_props example_overrides) ''vfs'')) ''Timeout'' = JUndefined \<and>
   obj_get (own_props (obj_get default_options ''vfs'')) ''Timeout'' = JNum 10"
  by (simp add: setOptions_calls_ready[OF example_env_lock_options] example_overrides_def
      ready_options_def obj_get_def default_options_def default_vfs_def)

text \<open>
  C1, amended: the ready event calls setOptions once, with an object in which every
  top-level key of the user options carries the user's value, whole, and every other
  key carries the built-in section; the merge is section by section.
\<close>

theorem ready_options_merge:
  assumes "lock_result E = Resolved u"
  shows "setOptions_calls (concat (emit E Ready)) = [ready_options (rclone_options E)] \<and>
         (\<forall>k. ready_options (rclone_options E) k =
            (case own_props (rclone_options E) k of
               Some v \<Rightarrow> Some v
             | None \<Rightarrow> default_options k))"
  using assms
  by (simp add: setOptions_calls_ready ready_options_def map_add_def)

theorem ready_options_merge_witness:
  "lock_result (example_env\<lparr>rclone_options := example_overrides\<rparr>) = Resolved () \<and>
   map (\<lambda>m. obj_get (own_props (obj_get m ''vfs'')) ''ReadOnly'')
     (setOptions_calls (concat (emit (example_env\<lparr>rclone_options := example_overrides\<rparr>) Ready)))
     = [JBool False] \<and>
   map (\<lambda>m. obj_get (own_props (obj_get m ''mount'')) ''NoAppleDouble'')
     (setOptions_calls (concat (emit (example_env\<lparr>rclone_options := example_overrides\<rparr>) Ready)))
     = [JBool True]"
  using ready_options_merge[of "example_env\<lparr>rclone_options := example_overrides\<rparr>" "()"]
  by (simp add: example_env_def example_overrides_def obj_get_def default_options_def
      default_mount_def)

end
